theory Spec2Isabelle
  imports Complex_Main
begin

section \<open>Numbers\<close>

text \<open>
  A JavaScript \<^verbatim>\<open>number\<close> is modelled as a real: rounding, NaN and the two infinities
  are outside the model. A quotient by 0, which is NaN or infinite in the source, is
  therefore outside the model too: a property that depends on the value of a quotient
  assumes that its divisor is not 0, and the properties of whole runs hold whichever
  branch a comparison takes. An optional value (\<^verbatim>\<open>x?: number\<close>, a config key that may
  be absent) is an \<open>option\<close>; \<^verbatim>\<open>a ?? d\<close> is \<open>dflt d a\<close>, and the truthiness test of
  an optional number (\<^verbatim>\<open>if (x)\<close>: defined and not zero) is \<open>truthy\<close>. Writes to the
  log files are left out.
\<close>

type_synonym number = real

definition dflt :: "'a \<Rightarrow> 'a option \<Rightarrow> 'a" where
  "dflt d x = (case x of None \<Rightarrow> d | Some v \<Rightarrow> v)"

definition truthy :: "number option \<Rightarrow> bool" where
  "truthy x = (case x of None \<Rightarrow> False | Some v \<Rightarrow> v \<noteq> 0)"

definition truthyS :: "string option \<Rightarrow> bool" where
  "truthyS x = (case x of None \<Rightarrow> False | Some v \<Rightarrow> v \<noteq> [])"

text \<open>\<^verbatim>\<open>Number.MAX_VALUE\<close>, the largest finite double (about 1.797e308).\<close>

definition MAX_VALUE :: number where
  "MAX_VALUE = 2 ^ 1024 - 2 ^ 971"

text \<open>\<^verbatim>\<open>percentChange(from, to)\<close> of utils/mcap.ts.\<close>

definition percentChange :: "number \<Rightarrow> number \<Rightarrow> number" where
  "percentChange frm to = (to - frm) / frm"

section \<open>GbmPredictor\<close>

text \<open>
  A node of a dumped tree is a leaf (it has a \<^verbatim>\<open>leaf_value\<close>) or a split with its two
  children; \<^verbatim>\<open>split_feature\<close> and \<^verbatim>\<open>threshold\<close> may be absent and then count as 0.
  A split without a child, on which \<^verbatim>\<open>scoreTree\<close> would throw, is excluded by the type.
\<close>

datatype TreeNode =
    Leaf number
  | Split "nat option" "number option" TreeNode TreeNode

record GbmPredictor =
  trees :: "TreeNode list"
  initScore :: number

text \<open>\<^verbatim>\<open>feats[featureIdx] ?? 0\<close>: an index past the end reads \<^verbatim>\<open>undefined\<close>.\<close>

definition feat_at :: "number list \<Rightarrow> nat \<Rightarrow> number" where
  "feat_at feats i = (if i < length feats then feats ! i else 0)"

fun scoreTree :: "TreeNode \<Rightarrow> number list \<Rightarrow> number" where
  "scoreTree (Leaf v) feats = v"
| "scoreTree (Split split_feature threshold left_child right_child) feats =
     (let featureIdx = dflt 0 split_feature;
          fVal = feat_at feats featureIdx;
          goLeft = (fVal \<le> dflt 0 threshold)
      in scoreTree (if goLeft then left_child else right_child) feats)"

text \<open>The loop of \<^verbatim>\<open>predict\<close>: \<^verbatim>\<open>for (const tree of this.trees) score += ...\<close>.\<close>

fun predict_loop :: "TreeNode list \<Rightarrow> number list \<Rightarrow> number \<Rightarrow> number" where
  "predict_loop [] feats score = score"
| "predict_loop (tree # rest) feats score = predict_loop rest feats (score + scoreTree tree feats)"

definition predict :: "GbmPredictor \<Rightarrow> number list \<Rightarrow> number" where
  "predict g feats = (let score = predict_loop (trees g) feats (initScore g) in 1 / (1 + exp (- score)))"

subsection \<open>The specification of the predictor\<close>

text \<open>The logistic function \<open>\<sigma>\<close> of the specification.\<close>

definition sigma :: "real \<Rightarrow> real" where
  "sigma x = 1 / (1 + exp (- x))"

text \<open>
  The leaf reached in a tree, in the specification's words: descend to the left
  iff the feature's value (0 when the vector has no such entry) is at most the threshold.
\<close>

inductive leaf_reached :: "number list \<Rightarrow> TreeNode \<Rightarrow> number \<Rightarrow> bool" where
  at_leaf: "leaf_reached feats (Leaf v) v"
| go_left: "feat_at feats (dflt 0 f) \<le> dflt 0 th \<Longrightarrow> leaf_reached feats l v
            \<Longrightarrow> leaf_reached feats (Split f th l r) v"
| go_right: "\<not> feat_at feats (dflt 0 f) \<le> dflt 0 th \<Longrightarrow> leaf_reached feats r v
            \<Longrightarrow> leaf_reached feats (Split f th l r) v"

section \<open>Data model of the strategy\<close>

datatype action = BUY | SELL

datatype reason = TP | SL

datatype side = buy | sell

text \<open>\<^verbatim>\<open>TradeSignal\<close>; the mint is identified with its base-58 string.\<close>

record TradeSignal =
  sig_mint :: string
  action :: action
  reason :: "reason option"
  sig_symbol :: "string option"
  sig_price :: "number option"
  sig_time :: "number option"

text \<open>\<^verbatim>\<open>PoolEvent\<close> of core/scanner.ts.\<close>

record PoolEvent =
  ev_mint :: string
  ev_createdAt :: number
  ev_initialMcap :: number
  ev_symbol :: "string option"
  ev_devWallet :: "string option"

record trade =
  t_ts :: number
  t_sol :: number
  t_wallet :: string

record wallet_seen =
  w_addr :: string
  w_ts :: number

text \<open>
  \<^verbatim>\<open>TokenState\<close>. A field that \<^verbatim>\<open>onPool\<close> leaves out of the fresh object is an
  \<open>option\<close>; a field that it always sets, and that nothing deletes, has its plain type.
  \<open>noBuyTimer\<close> tells whether the timer handle is present. \<open>ref\<close> is the identity of the
  object: the asynchronous callbacks of \<^verbatim>\<open>onPool\<close> and \<^verbatim>\<open>onPrice\<close> hold the object
  itself (\<^verbatim>\<open>stateRef\<close>, \<^verbatim>\<open>state\<close>), which may no longer be the one stored under the mint.
\<close>

record TokenState =
  noBuyTimer :: bool
  entryFeatures :: "number list option"
  liquidity :: number
  volumeSol :: number
  highestPrice :: number
  lowestPrice :: number
  entryPrice :: "number option"
  entrySol :: "number option"
  peakSinceEntry :: "number option"
  peakLiquidity :: number
  isExceptional :: bool
  trades :: "trade list"
  wallets :: "wallet_seen list"
  emaShort :: "number option"
  emaLong :: "number option"
  atr :: "number option"
  lastPrice :: "number option"
  hasBought :: bool
  createdAt :: number
  initialTokens :: "number option"
  transferFeeBps :: "number option"
  isBundler :: "bool option"
  riskChecked :: bool
  devWallet :: "string option"
  devSold :: bool
  devFirstToken :: bool
  symbol :: "string option"
  nextDevCheck :: "number option"
  ref :: nat

text \<open>The configuration keys the strategy reads (logging keys apart).\<close>

record config =
  skip_dev_same_ticker :: bool
  token_max_age :: "number option"
  min_initial_mcap :: "number option"
  max_initial_liquidity_sol :: "number option"
  enable_tax_bundler_filter :: "bool option"
  max_transfer_fee_bps :: "number option"
  allow_bundler :: bool
  min_runtime_mcap_sol :: "number option"
  tps_window_ms :: "number option"
  ema_short_ms :: "number option"
  ema_long_ms :: "number option"
  atr_window_sec :: "number option"
  require_dev_sold :: "bool option"
  skip_dev_first_token :: "bool option"
  trade_size_sol :: "number option"
  dev_blacklist_sec :: "number option"
  rug_liquidity_drop_pct :: "number option"
  min_liquidity_sol :: "number option"
  min_volume_sol :: "number option"
  min_tps :: "number option"
  min_unique_wallets :: "number option"
  max_avg_sol_per_tx :: "number option"
  exceptional_momentum_pct :: "number option"
  migrate_fill_pct :: "number option"
  take_profit :: "number option"
  base_trail_dd :: "number option"
  tps_trail_scale :: "number option"
  atr_mult :: "number option"
  disable_ema_tps_gain_pct :: "number option"
  exit_tps :: "number option"
  lgbm_enabled :: bool
  lgbm_threshold_buy :: "number option"
  buy_threshold :: "number option"
  lgbm_threshold_sell :: "number option"
  sell_threshold :: "number option"
  pure_ml :: bool

text \<open>
  The fields of \<^verbatim>\<open>MomentumStrategy\<close>. The two subjects \<^verbatim>\<open>signals$\<close> and \<^verbatim>\<open>pnl$\<close> are
  the lists of what was emitted on them, oldest first. \<open>nextRef\<close> numbers the
  \<^verbatim>\<open>TokenState\<close> objects as they are created.
\<close>

record MomentumStrategy =
  config :: config
  gbmBuy :: "GbmPredictor option"
  gbmSell :: "GbmPredictor option"
  pureML :: bool
  buyThreshold :: number
  sellThreshold :: number
  profitSol :: number
  investedSol :: number
  totalInvestedSol :: number
  states :: "string \<rightharpoonup> TokenState"
  devTokenCount :: "string \<rightharpoonup> nat"
  devLastTicker :: "string \<rightharpoonup> string"
  devBlacklist :: "string \<rightharpoonup> number"
  signals :: "TradeSignal list"
  pnl_out :: "number list"
  nextRef :: nat

type_synonym st = "MomentumStrategy \<times> TokenState"

text \<open>
  The constructor. \<open>buyFile\<close> and \<open>sellFile\<close> are the models read from \<^verbatim>\<open>buy.json\<close> and
  \<^verbatim>\<open>sell.json\<close> of the model directory, \<open>None\<close> for a file that does not exist.
\<close>

definition new_strategy :: "config \<Rightarrow> GbmPredictor option \<Rightarrow> GbmPredictor option \<Rightarrow> MomentumStrategy" where
  "new_strategy cfg buyFile sellFile =
     \<lparr>config = cfg,
      gbmBuy = (if lgbm_enabled cfg then buyFile else None),
      gbmSell = (if lgbm_enabled cfg then sellFile else None),
      pureML = (if lgbm_enabled cfg then pure_ml cfg else False),
      buyThreshold =
        (if lgbm_enabled cfg
         then dflt 0.5 (case lgbm_threshold_buy cfg of Some v \<Rightarrow> Some v | None \<Rightarrow> buy_threshold cfg)
         else 0.5),
      sellThreshold =
        (if lgbm_enabled cfg
         then dflt 0.5 (case lgbm_threshold_sell cfg of Some v \<Rightarrow> Some v | None \<Rightarrow> sell_threshold cfg)
         else 0.5),
      profitSol = 0,
      investedSol = 0,
      totalInvestedSol = 0,
      states = Map.empty,
      devTokenCount = Map.empty,
      devLastTicker = Map.empty,
      devBlacklist = Map.empty,
      signals = [],
      pnl_out = [],
      nextRef = 0\<rparr>"

definition emit :: "TradeSignal \<Rightarrow> MomentumStrategy \<Rightarrow> MomentumStrategy" where
  "emit g eng = eng\<lparr>signals := signals eng @ [g]\<rparr>"

definition stopTracking :: "string \<Rightarrow> MomentumStrategy \<Rightarrow> MomentumStrategy" where
  "stopTracking mint eng = eng\<lparr>states := (states eng)(mint := None)\<rparr>"

definition settlePosition :: "TokenState \<Rightarrow> number \<Rightarrow> MomentumStrategy \<Rightarrow> MomentumStrategy" where
  "settlePosition state exitPrice eng =
     (case entryPrice state of
        None \<Rightarrow> eng
      | Some ep \<Rightarrow>
         (case entrySol state of
            None \<Rightarrow> eng
          | Some es \<Rightarrow>
             if ep \<noteq> 0 \<and> es \<noteq> 0
             then (let pnlSol = es * (exitPrice - ep) / ep;
                       profit = profitSol eng + pnlSol
                   in eng\<lparr>profitSol := profit,
                          investedSol := max 0 (investedSol eng - es),
                          pnl_out := pnl_out eng @ [profit]\<rparr>)
             else eng))"

section \<open>Pool events\<close>

text \<open>\<^verbatim>\<open>toLowerCase\<close> on the ASCII letters.\<close>

definition lower_char :: "char \<Rightarrow> char" where
  "lower_char c =
     (let n = (of_char c :: nat) in if 65 \<le> n \<and> n \<le> 90 then char_of (n + 32) else c)"

definition toLowerCase :: "string \<Rightarrow> string" where
  "toLowerCase s = map lower_char s"

text \<open>
  Lines 138-148 of \<^verbatim>\<open>onPool\<close>: the same-ticker filter. The result is the strategy with
  the dev's last ticker recorded, and whether the event is skipped.
\<close>

definition same_ticker_filter :: "PoolEvent \<Rightarrow> MomentumStrategy \<Rightarrow> MomentumStrategy \<times> bool" where
  "same_ticker_filter event eng =
     (case (ev_devWallet event, ev_symbol event) of
        (Some dw, Some ticker) \<Rightarrow>
          if skip_dev_same_ticker (config eng) \<and> dw \<noteq> [] \<and> ticker \<noteq> []
          then (let last = map_option toLowerCase (devLastTicker eng dw);
                    curr = toLowerCase ticker;
                    eng' = eng\<lparr>devLastTicker := (devLastTicker eng)(dw \<mapsto> curr)\<rparr>
                in (eng', truthyS last \<and> last = Some curr))
          else (eng, False)
      | _ \<Rightarrow> (eng, False))"

text \<open>Lines 150-152: the age and market-cap filters; \<open>now\<close> is in seconds.\<close>

definition admission_rejects :: "config \<Rightarrow> number \<Rightarrow> PoolEvent \<Rightarrow> bool" where
  "admission_rejects cfg now event =
     (now - ev_createdAt event > dflt 600 (token_max_age cfg)
      \<or> ev_initialMcap event < dflt 0 (min_initial_mcap cfg)
      \<or> (case max_initial_liquidity_sol cfg of None \<Rightarrow> False | Some m \<Rightarrow> ev_initialMcap event > m))"

text \<open>Lines 155-199: the token is not tracked yet.\<close>

definition track_token :: "number \<Rightarrow> PoolEvent \<Rightarrow> MomentumStrategy \<Rightarrow> MomentumStrategy" where
  "track_token now event eng =
     (let mint = ev_mint event;
          prev = (case ev_devWallet event of
                    None \<Rightarrow> 0
                  | Some dw \<Rightarrow> if dw = [] then 0 else dflt 0 (devTokenCount eng dw));
          devFirst = (truthyS (ev_devWallet event) \<and> prev = 0);
          counts = (case ev_devWallet event of
                      None \<Rightarrow> devTokenCount eng
                    | Some dw \<Rightarrow> if dw = [] then devTokenCount eng
                                 else (devTokenCount eng)(dw \<mapsto> prev + 1));
          stateObj =
            \<lparr>noBuyTimer = True,
             entryFeatures = None,
             liquidity = ev_initialMcap event,
             volumeSol = 0,
             highestPrice = 0,
             lowestPrice = MAX_VALUE,
             entryPrice = None,
             entrySol = None,
             peakSinceEntry = None,
             peakLiquidity = ev_initialMcap event,
             isExceptional = False,
             trades = [],
             wallets = [],
             emaShort = None,
             emaLong = None,
             atr = None,
             lastPrice = None,
             hasBought = False,
             createdAt = now,
             initialTokens = None,
             transferFeeBps = None,
             isBundler = None,
             riskChecked = (enable_tax_bundler_filter (config eng) = Some False),
             devWallet = ev_devWallet event,
             devSold = False,
             devFirstToken = devFirst,
             symbol = ev_symbol event,
             nextDevCheck = None,
             ref = nextRef eng\<rparr>
      in eng\<lparr>devTokenCount := counts,
             states := (states eng)(mint \<mapsto> stateObj),
             nextRef := nextRef eng + 1\<rparr>)"

text \<open>
  \<^verbatim>\<open>onPool\<close>, called at the clock reading \<open>nowMs\<close> (milliseconds). When the risk filter is
  enabled the risk assessment is started here; its result comes back later through
  \<open>risk_then\<close> or \<open>risk_catch\<close> below, with the identity of the object just created.
\<close>

definition onPool :: "number \<Rightarrow> PoolEvent \<Rightarrow> MomentumStrategy \<Rightarrow> MomentumStrategy" where
  "onPool nowMs event eng =
     (let (eng1, skip) = same_ticker_filter event eng in
      if skip then eng1
      else (let now = nowMs / 1000 in
            if admission_rejects (config eng1) now event then eng1
            else if states eng1 (ev_mint event) \<noteq> None then eng1
            else track_token now event eng1))"

section \<open>Asynchronous callbacks\<close>

text \<open>
  A callback that writes to the object \<open>r\<close> changes the tracked state of \<open>mint\<close> only when
  that object is still the one stored there; a write to a dropped object is never read again.
\<close>

definition with_ref :: "nat \<Rightarrow> string \<Rightarrow> (TokenState \<Rightarrow> TokenState) \<Rightarrow> MomentumStrategy \<Rightarrow> MomentumStrategy" where
  "with_ref r mint f eng =
     (case states eng mint of
        None \<Rightarrow> eng
      | Some s \<Rightarrow> if ref s = r then eng\<lparr>states := (states eng)(mint \<mapsto> f s)\<rparr> else eng)"

text \<open>Lines 203-219: the risk assessment resolved with \<open>feeBps\<close> and \<open>bundler\<close>.\<close>

definition risk_then :: "nat \<Rightarrow> string \<Rightarrow> number option \<Rightarrow> bool \<Rightarrow> MomentumStrategy \<Rightarrow> MomentumStrategy" where
  "risk_then r mint feeBps bundler eng =
     (let eng1 = with_ref r mint
            (\<lambda>s. s\<lparr>transferFeeBps := (case feeBps of None \<Rightarrow> transferFeeBps s | Some f \<Rightarrow> Some f),
                   riskChecked := True,
                   isBundler := Some bundler\<rparr>) eng;
          maxBps = dflt 0 (max_transfer_fee_bps (config eng));
          allowBundler = allow_bundler (config eng);
          isFeeBlock = (case feeBps of None \<Rightarrow> False | Some f \<Rightarrow> f > maxBps);
          isBundleBlock = (bundler \<and> \<not> allowBundler)
      in if isFeeBlock \<or> isBundleBlock then stopTracking mint eng1 else eng1)"

text \<open>Lines 220-223: the risk assessment failed.\<close>

definition risk_catch :: "nat \<Rightarrow> string \<Rightarrow> MomentumStrategy \<Rightarrow> MomentumStrategy" where
  "risk_catch r mint eng = with_ref r mint (\<lambda>s. s\<lparr>riskChecked := True\<rparr>) eng"

text \<open>Lines 268-275: the dev-balance probe resolved.\<close>

definition dev_exit_then :: "nat \<Rightarrow> string \<Rightarrow> bool \<Rightarrow> MomentumStrategy \<Rightarrow> MomentumStrategy" where
  "dev_exit_then r mint exited eng =
     (if exited then with_ref r mint (\<lambda>s. s\<lparr>devSold := True\<rparr>) eng else eng)"

text \<open>Lines 185-191: the no-buy timer fired.\<close>

definition no_buy_timeout :: "string \<Rightarrow> MomentumStrategy \<Rightarrow> MomentumStrategy" where
  "no_buy_timeout mint eng =
     (case states eng mint of
        None \<Rightarrow> eng
      | Some s \<Rightarrow> if \<not> hasBought s then stopTracking mint eng else eng)"

section \<open>Price events\<close>

text \<open>
  \<^verbatim>\<open>onPrice\<close> works on the state object of the mint. Below, each block of its body is a
  function on the pair of the strategy and that object; a block that ends the call
  (\<^verbatim>\<open>return\<close>) gives \<open>Return\<close>, one that falls through gives \<open>Continue\<close>.
\<close>

datatype flow = Return st | Continue st

definition and_then :: "flow \<Rightarrow> (st \<Rightarrow> flow) \<Rightarrow> flow" where
  "and_then r f = (case r of Return x \<Rightarrow> Return x | Continue x \<Rightarrow> f x)"

text \<open>Lines 234-237: the first positive \<^verbatim>\<open>tokensCurve\<close> is recorded.\<close>

definition record_curve :: "number option \<Rightarrow> TokenState \<Rightarrow> TokenState" where
  "record_curve tokensCurve state =
     (case tokensCurve of
        None \<Rightarrow> state
      | Some tc \<Rightarrow> if initialTokens state = None \<and> tc > 0
                   then state\<lparr>initialTokens := Some tc\<rparr> else state)"

text \<open>Lines 240-253: the liquidity floor; \<open>None\<close> when the token is dropped.\<close>

definition update_liquidity :: "config \<Rightarrow> number option \<Rightarrow> TokenState \<Rightarrow> TokenState option" where
  "update_liquidity cfg liq state =
     (case liq of
        None \<Rightarrow> Some state
      | Some l \<Rightarrow>
          (let minMcap = dflt 30 (min_runtime_mcap_sol cfg) in
           if l < minMcap then None
           else Some (state\<lparr>liquidity := l,
                            peakLiquidity := (if peakLiquidity state = 0 \<or> l > peakLiquidity state
                                              then l else peakLiquidity state)\<rparr>)))"

text \<open>
  Lines 254-282: volume, the trade and wallet windows, and the schedule of the dev-balance
  probe (whose result comes back through \<open>dev_exit_then\<close>). The readings of the clock
  within one call are taken to be the same, \<open>nowMs\<close>.
\<close>

definition update_window ::
  "config \<Rightarrow> number \<Rightarrow> number option \<Rightarrow> string option \<Rightarrow> side option \<Rightarrow> TokenState \<Rightarrow> TokenState" where
  "update_window cfg nowMs vol wallet sd state =
     (let s1 = (case vol of None \<Rightarrow> state | Some v \<Rightarrow> state\<lparr>volumeSol := volumeSol state + v\<rparr>);
          ts = nowMs;
          s2 = s1\<lparr>trades := trades s1 @ [\<lparr>t_ts = ts, t_sol = dflt 0 vol, t_wallet = dflt [] wallet\<rparr>]\<rparr>;
          windowMs = dflt 4000 (tps_window_ms cfg);
          s3 = (if truthyS (devWallet s2) \<and> wallet = devWallet s2 \<and> sd = Some sell
                then s2\<lparr>nextDevCheck := Some nowMs\<rparr> else s2);
          s4 = (if \<not> devSold s3 \<and> truthyS (devWallet s3) \<and> dflt 0 (nextDevCheck s3) \<le> nowMs
                then s3\<lparr>nextDevCheck := Some (nowMs + 15000)\<rparr> else s3);
          s5 = s4\<lparr>wallets := filter (\<lambda>w. ts - w_ts w \<le> windowMs) (wallets s4)\<rparr>;
          s6 = (case wallet of
                  None \<Rightarrow> s5
                | Some w \<Rightarrow> if w \<noteq> [] then s5\<lparr>wallets := wallets s5 @ [\<lparr>w_addr = w, w_ts = ts\<rparr>]\<rparr> else s5)
      in s6\<lparr>trades := filter (\<lambda>tr. ts - t_ts tr \<le> windowMs) (trades s6)\<rparr>)"

text \<open>Lines 283-287: the figures of the window.\<close>

definition tps_of :: "config \<Rightarrow> TokenState \<Rightarrow> number" where
  "tps_of cfg state = real (length (trades state)) / (dflt 4000 (tps_window_ms cfg) / 1000)"

definition windowVolume :: "TokenState \<Rightarrow> number" where
  "windowVolume state = foldl (\<lambda>acc tr. acc + t_sol tr) 0 (trades state)"

definition uniqueWallets :: "TokenState \<Rightarrow> nat" where
  "uniqueWallets state = length (remdups (map w_addr (wallets state)))"

definition avgSol :: "TokenState \<Rightarrow> number" where
  "avgSol state =
     (if length (trades state) \<noteq> 0 then windowVolume state / real (length (trades state)) else 0)"

text \<open>
  Lines 292-293: \<^verbatim>\<open>2 / ((ms / (windowMs / tradeCount || 1)) + 1)\<close>. With no trade in a
  window that is not 0 the quotient is infinite and the result is 2.
\<close>

definition ema_alpha :: "number \<Rightarrow> number \<Rightarrow> nat \<Rightarrow> number" where
  "ema_alpha ms windowMs tradeCount =
     (if tradeCount = 0 \<and> windowMs \<noteq> 0 then 2
      else (let gap = windowMs / real tradeCount
            in 2 / (ms / (if gap = 0 then 1 else gap) + 1)))"

text \<open>Lines 289-302: the two EMAs, the ATR and the last price.\<close>

definition update_indicators :: "config \<Rightarrow> number \<Rightarrow> TokenState \<Rightarrow> TokenState" where
  "update_indicators cfg price state =
     (let windowMs = dflt 4000 (tps_window_ms cfg);
          tradeCount = length (trades state);
          shortMs = dflt 4000 (ema_short_ms cfg);
          longMs = dflt 12000 (ema_long_ms cfg);
          alphaShort = ema_alpha shortMs windowMs tradeCount;
          alphaLong = ema_alpha longMs windowMs tradeCount;
          s1 = state\<lparr>emaShort := Some (case emaShort state of
                                         None \<Rightarrow> price
                                       | Some e \<Rightarrow> price * alphaShort + e * (1 - alphaShort)),
                     emaLong := Some (case emaLong state of
                                        None \<Rightarrow> price
                                      | Some e \<Rightarrow> price * alphaLong + e * (1 - alphaLong))\<rparr>;
          s2 = (case lastPrice s1 of
                  None \<Rightarrow> s1
                | Some lp \<Rightarrow>
                    (let tr = \<bar>price - lp\<bar>;
                         atrWindow = dflt 20 (atr_window_sec cfg);
                         alphaAtr = 2 / (atrWindow + 1)
                     in s1\<lparr>atr := Some (case atr s1 of
                                          None \<Rightarrow> tr
                                        | Some a \<Rightarrow> tr * alphaAtr + a * (1 - alphaAtr))\<rparr>))
      in s2\<lparr>lastPrice := Some price\<rparr>)"

text \<open>Lines 304-324: the feature vector.\<close>

definition features :: "config \<Rightarrow> number \<Rightarrow> number \<Rightarrow> TokenState \<Rightarrow> number list" where
  "features cfg now price state =
     (let riseFromLow = (if lowestPrice state \<noteq> 0 then price / lowestPrice state - 1 else 0);
          riseFromEntry = (if truthy (entryPrice state) then price / dflt 0 (entryPrice state) - 1 else 0);
          emaGap = (case emaShort state of
                      None \<Rightarrow> 0
                    | Some es \<Rightarrow> (case emaLong state of
                                   None \<Rightarrow> 0
                                 | Some el \<Rightarrow> if price > 0 then (es - el) / price else 0));
          atrRatio = (if truthy (atr state) \<and> price \<noteq> 0 then dflt 0 (atr state) / price else 0);
          tokenAgeMin = (if createdAt state \<noteq> 0 then (now - createdAt state) / 60 else 0);
          drawdown = (if truthy (peakSinceEntry state) then dflt 0 (peakSinceEntry state) / price - 1 else 0)
      in [ln (price + 1 / 10 ^ 12),
          ln (liquidity state + 1),
          tps_of cfg state / 10,
          riseFromLow,
          real (uniqueWallets state) / 10,
          emaGap,
          atrRatio,
          tokenAgeMin / 60,
          drawdown,
          riseFromEntry])"

text \<open>Lines 326-341: the three gates before any entry.\<close>

definition risk_gate :: "st \<Rightarrow> flow" where
  "risk_gate x = (case x of (eng, state) \<Rightarrow>
     if \<not> riskChecked state then Return (eng, state) else Continue (eng, state))"

definition first_token_gate :: "string \<Rightarrow> st \<Rightarrow> flow" where
  "first_token_gate mint x = (case x of (eng, state) \<Rightarrow>
     (let skipFirst = (skip_dev_first_token (config eng) \<noteq> Some False) in
      if skipFirst \<and> devFirstToken state then Return (stopTracking mint eng, state)
      else Continue (eng, state)))"

definition dev_sold_gate :: "st \<Rightarrow> flow" where
  "dev_sold_gate x = (case x of (eng, state) \<Rightarrow>
     (let requireDevSold = (require_dev_sold (config eng) \<noteq> Some False) in
      if requireDevSold \<and> \<not> devSold state then Return (eng, state) else Continue (eng, state)))"

text \<open>
  Opening a position: lines 348-360 of the LightGBM entry, and the same statements
  at lines 453-465 of the heuristic entry.
\<close>

definition open_position :: "number \<Rightarrow> number \<Rightarrow> number list \<Rightarrow> st \<Rightarrow> st" where
  "open_position now price feat x = (case x of (eng, state) \<Rightarrow>
     (let tradeSize = dflt 0.5 (trade_size_sol (config eng));
          state' = state\<lparr>entryPrice := Some price,
                         entrySol := Some tradeSize,
                         peakSinceEntry := Some price,
                         noBuyTimer := False,
                         hasBought := True,
                         entryFeatures := Some feat\<rparr>;
          blkSec = dflt 3600 (dev_blacklist_sec (config eng));
          eng' = eng\<lparr>investedSol := investedSol eng + tradeSize,
                     totalInvestedSol := totalInvestedSol eng + tradeSize,
                     devBlacklist := (case devWallet state of
                                        None \<Rightarrow> devBlacklist eng
                                      | Some dw \<Rightarrow> if dw = [] then devBlacklist eng
                                                   else (devBlacklist eng)(dw \<mapsto> now + blkSec))\<rparr>
      in (eng', state')))"

definition buy_signal :: "string \<Rightarrow> number \<Rightarrow> number \<Rightarrow> TokenState \<Rightarrow> TradeSignal" where
  "buy_signal mint price now state =
     \<lparr>sig_mint = mint, action = BUY, reason = None, sig_symbol = symbol state,
      sig_price = Some price, sig_time = Some now\<rparr>"

definition sell_signal :: "string \<Rightarrow> reason \<Rightarrow> number \<Rightarrow> number \<Rightarrow> TokenState \<Rightarrow> TradeSignal" where
  "sell_signal mint r price now state =
     \<lparr>sig_mint = mint, action = SELL, reason = Some r, sig_symbol = symbol state,
      sig_price = Some price, sig_time = Some now\<rparr>"

text \<open>
  The statements of every exit (lines 393-399, 411-416, 479-484, 510-515, 535-541,
  547-553, 570-576): emit SELL, settle, stop tracking.
\<close>

definition sell_and_untrack :: "reason \<Rightarrow> string \<Rightarrow> number \<Rightarrow> number \<Rightarrow> st \<Rightarrow> st" where
  "sell_and_untrack r mint price now x = (case x of (eng, state) \<Rightarrow>
     (stopTracking mint (settlePosition state price (emit (sell_signal mint r price now state) eng)),
      state))"

text \<open>Lines 343-364: the LightGBM entry.\<close>

definition ml_buy :: "string \<Rightarrow> number \<Rightarrow> number \<Rightarrow> number list \<Rightarrow> st \<Rightarrow> st" where
  "ml_buy mint price now feat x = (case x of (eng, state) \<Rightarrow>
     (case gbmBuy eng of
        None \<Rightarrow> (eng, state)
      | Some g \<Rightarrow>
          (let pBuy = predict g feat in
           if \<not> hasBought state \<and> pBuy \<ge> buyThreshold eng
           then (case open_position now price feat (eng, state) of (eng', state') \<Rightarrow>
                   (emit (buy_signal mint price now state') eng', state'))
           else (eng, state))))"

text \<open>Lines 390-400: rug detection.\<close>

definition rug_exit :: "string \<Rightarrow> number \<Rightarrow> number \<Rightarrow> st \<Rightarrow> flow" where
  "rug_exit mint price now x = (case x of (eng, state) \<Rightarrow>
     (let rugDropPct = dflt 0.4 (rug_liquidity_drop_pct (config eng)) in
      if hasBought state \<and> peakLiquidity state \<noteq> 0
         \<and> liquidity state < peakLiquidity state * (1 - rugDropPct)
      then Return (sell_and_untrack SL mint price now (eng, state))
      else Continue (eng, state)))"

text \<open>Lines 402-404.\<close>

definition track_extrema :: "number \<Rightarrow> st \<Rightarrow> st" where
  "track_extrema price x = (case x of (eng, state) \<Rightarrow>
     (eng, state\<lparr>highestPrice := (if price > highestPrice state then price else highestPrice state),
                 lowestPrice := (if price < lowestPrice state then price else lowestPrice state)\<rparr>))"

text \<open>Lines 407-418: the LightGBM exit.\<close>

definition ml_sell :: "string \<Rightarrow> number \<Rightarrow> number \<Rightarrow> number list \<Rightarrow> st \<Rightarrow> flow" where
  "ml_sell mint price now feat x = (case x of (eng, state) \<Rightarrow>
     (case gbmSell eng of
        None \<Rightarrow> Continue (eng, state)
      | Some g \<Rightarrow>
          if hasBought state \<and> predict g feat \<ge> sellThreshold eng
          then Return (sell_and_untrack TP mint price now (eng, state))
          else Continue (eng, state)))"

text \<open>Lines 433-439: the dev of the token is on the blacklist and the entry has not expired.\<close>

definition blacklisted :: "MomentumStrategy \<Rightarrow> TokenState \<Rightarrow> number \<Rightarrow> bool" where
  "blacklisted eng state now =
     (case devWallet state of
        None \<Rightarrow> False
      | Some dw \<Rightarrow> dw \<noteq> [] \<and> (case devBlacklist eng dw of
                                 None \<Rightarrow> False
                               | Some expiry \<Rightarrow> expiry \<noteq> 0 \<and> expiry > now))"

text \<open>Lines 420-472: the heuristic entry.\<close>

definition heuristic_entry ::
  "string \<Rightarrow> number \<Rightarrow> number \<Rightarrow> number \<Rightarrow> nat \<Rightarrow> number \<Rightarrow> number list \<Rightarrow> st \<Rightarrow> flow" where
  "heuristic_entry mint price now tps nWallets avg feat x = (case x of (eng, state) \<Rightarrow>
     (let cfg = config eng in
      if \<not> hasBought state \<and> \<not> pureML eng
      then (let ageSec = now - createdAt state in
            if ageSec > dflt 600 (token_max_age cfg) then Return (stopTracking mint eng, state)
            else if liquidity state < dflt 0 (min_liquidity_sol cfg) then Return (eng, state)
            else if volumeSol state < dflt 0 (min_volume_sol cfg) then Return (eng, state)
            else if blacklisted eng state now then Return (eng, state)
            else if tps < dflt 5 (min_tps cfg) then Return (eng, state)
            else if real nWallets < dflt 0 (min_unique_wallets cfg) then Return (eng, state)
            else if avg > dflt 2 (max_avg_sol_per_tx cfg) then Return (eng, state)
            else (let exceptionalPct = dflt 2 (exceptional_momentum_pct cfg);
                      rise = percentChange (lowestPrice state) price
                  in if rise \<ge> exceptionalPct
                     then (case open_position now price feat (eng, state) of (eng', state') \<Rightarrow>
                             (let state'' = state'\<lparr>isExceptional := True\<rparr>
                              in Return (emit (buy_signal mint price now state'') eng', state'')))
                     else Return (eng, state)))
      else Continue (eng, state)))"

text \<open>Lines 474-486: the migration-fill exit.\<close>

definition migration_exit :: "string \<Rightarrow> number \<Rightarrow> number \<Rightarrow> number option \<Rightarrow> st \<Rightarrow> flow" where
  "migration_exit mint price now tokensCurve x = (case x of (eng, state) \<Rightarrow>
     (case tokensCurve of
        None \<Rightarrow> Continue (eng, state)
      | Some tc \<Rightarrow>
          if truthy (initialTokens state)
          then (let fill = 1 - tc / dflt 0 (initialTokens state);
                    migThresh = dflt 0.97 (migrate_fill_pct (config eng))
                in if fill \<ge> migThresh
                   then Return (sell_and_untrack TP mint price now (eng, state))
                   else Continue (eng, state))
          else Continue (eng, state)))"

text \<open>Line 523: the gain of the peak since entry over the entry price \<open>ep\<close>.\<close>

definition gain_pct :: "number \<Rightarrow> TokenState \<Rightarrow> number" where
  "gain_pct ep state =
     (if truthy (peakSinceEntry state) then dflt 0 (peakSinceEntry state) / ep - 1 else 0)"

text \<open>Lines 519-525: the adaptive trailing threshold.\<close>

definition dyn_trail :: "config \<Rightarrow> number \<Rightarrow> number \<Rightarrow> bool \<Rightarrow> number" where
  "dyn_trail cfg tps gainPct exceptional =
     (let minTpsCfg = dflt 5 (min_tps cfg);
          baseTrail = dflt 0.2 (base_trail_dd cfg);
          scale = dflt 0.04 (tps_trail_scale cfg);
          extraTrail = min 0.3 (max 0 ((tps / minTpsCfg - 1) * scale));
          gainTrail = min 0.5 (0.1 + gainPct * 0.1)
      in baseTrail + extraTrail + gainTrail + (if exceptional then 0.1 else 0))"

text \<open>Lines 528-530: the combined percent and ATR trail.\<close>

definition allowed_drop :: "config \<Rightarrow> TokenState \<Rightarrow> number \<Rightarrow> number" where
  "allowed_drop cfg state dynTrail =
     (let atrMultExit = dflt 3 (atr_mult cfg);
          absTrail = (if truthy (atr state) then dflt 0 (atr state) * atrMultExit else 0)
      in if truthy (peakSinceEntry state)
         then max absTrail (dflt 0 (peakSinceEntry state) * dynTrail) else 0)"

text \<open>Line 545.\<close>

definition exit_tps_of :: "config \<Rightarrow> number" where
  "exit_tps_of cfg = dflt (max 1 (dflt 5 (min_tps cfg) / 2)) (exit_tps cfg)"

text \<open>Lines 488-577: the adaptive exit (the disabled ATR-only branch of line 558 is dead code).\<close>

definition adaptive_exit :: "string \<Rightarrow> number \<Rightarrow> number \<Rightarrow> number \<Rightarrow> st \<Rightarrow> st" where
  "adaptive_exit mint price now tps x = (case x of (eng, state) \<Rightarrow>
     (let cfg = config eng in
      if pureML eng then (eng, state)
      else if \<not> truthy (entryPrice state) then (eng, state)
      else
       (let ep = dflt 0 (entryPrice state);
            s1 = (if price > dflt 0 (peakSinceEntry state)
                  then state\<lparr>peakSinceEntry := Some price\<rparr> else state);
            exceptionalPct = dflt 2 (exceptional_momentum_pct cfg);
            riseLowNow = percentChange (lowestPrice s1) price;
            s2 = (if \<not> isExceptional s1 \<and> riseLowNow \<ge> exceptionalPct
                  then s1\<lparr>isExceptional := True\<rparr> else s1);
            pnl = percentChange ep price
        in if (case take_profit cfg of None \<Rightarrow> False | Some tpLevel \<Rightarrow> pnl \<ge> tpLevel)
           then sell_and_untrack TP mint price now (eng, s2)
           else
            (let gainPct = gain_pct ep s2;
                 dynTrail = dyn_trail cfg tps gainPct (isExceptional s2);
                 allowedDrop = allowed_drop cfg s2 dynTrail;
                 gainSafe = dflt 0.3 (disable_ema_tps_gain_pct cfg);
                 emaDown = (case emaShort s2 of
                              None \<Rightarrow> False
                            | Some es \<Rightarrow> (case emaLong s2 of None \<Rightarrow> False | Some el \<Rightarrow> es < el));
                 exitTps = exit_tps_of cfg
             in if gainPct < gainSafe \<and> emaDown
                then sell_and_untrack SL mint price now (eng, s2)
                else if gainPct < gainSafe \<and> tps < exitTps
                then sell_and_untrack SL mint price now (eng, s2)
                else if truthy (peakSinceEntry s2)
                        \<and> price \<le> dflt 0 (peakSinceEntry s2) - allowedDrop
                then sell_and_untrack SL mint price now (eng, s2)
                else (eng, s2)))))"

text \<open>Lines 326-577, in the order of the source.\<close>

definition decide ::
  "string \<Rightarrow> number \<Rightarrow> number \<Rightarrow> number option \<Rightarrow> number \<Rightarrow> nat \<Rightarrow> number \<Rightarrow> number list \<Rightarrow> st \<Rightarrow> flow" where
  "decide mint price now tokensCurve tps nWallets avg feat x =
     and_then (risk_gate x) (\<lambda>x.
     and_then (first_token_gate mint x) (\<lambda>x.
     and_then (dev_sold_gate x) (\<lambda>x.
     and_then (rug_exit mint price now (ml_buy mint price now feat x)) (\<lambda>x.
     and_then (ml_sell mint price now feat (track_extrema price x)) (\<lambda>x.
     and_then (heuristic_entry mint price now tps nWallets avg feat x) (\<lambda>x.
     and_then (migration_exit mint price now tokensCurve x) (\<lambda>x.
     Return (adaptive_exit mint price now tps x))))))))"

text \<open>
  At the end of the call the object, which the body changed in place, is the state of
  the mint unless the call stopped tracking it.
\<close>

definition payload :: "flow \<Rightarrow> st" where
  "payload r = (case r of Return x \<Rightarrow> x | Continue x \<Rightarrow> x)"

definition commit :: "string \<Rightarrow> flow \<Rightarrow> MomentumStrategy" where
  "commit mint r =
     (case payload r of (eng, state) \<Rightarrow>
        if states eng mint = None then eng
        else eng\<lparr>states := (states eng)(mint \<mapsto> state)\<rparr>)"

text \<open>Lines 234-302: what the call does to the object before the gates; \<open>None\<close> when
  the liquidity floor drops the token.\<close>

definition prepare ::
  "config \<Rightarrow> number \<Rightarrow> number \<Rightarrow> number option \<Rightarrow> number option \<Rightarrow> string option \<Rightarrow> side option
   \<Rightarrow> number option \<Rightarrow> TokenState \<Rightarrow> TokenState option" where
  "prepare cfg nowMs price vol liq wallet sd tokensCurve state =
     (case update_liquidity cfg liq (record_curve tokensCurve state) of
        None \<Rightarrow> None
      | Some s1 \<Rightarrow> Some (update_indicators cfg price (update_window cfg nowMs vol wallet sd s1)))"

text \<open>\<^verbatim>\<open>onPrice\<close>, called at the clock reading \<open>nowMs\<close> (milliseconds).\<close>

definition onPrice ::
  "number \<Rightarrow> string \<Rightarrow> number \<Rightarrow> number option \<Rightarrow> number option \<Rightarrow> string option \<Rightarrow> side option
   \<Rightarrow> number option \<Rightarrow> MomentumStrategy \<Rightarrow> MomentumStrategy" where
  "onPrice nowMs mint price vol liq wallet sd tokensCurve eng =
     (let now = nowMs / 1000; cfg = config eng in
      case states eng mint of
        None \<Rightarrow> eng
      | Some state \<Rightarrow>
          (case prepare cfg nowMs price vol liq wallet sd tokensCurve state of
             None \<Rightarrow> stopTracking mint eng
           | Some s2 \<Rightarrow>
               (let tps = tps_of cfg s2;
                    feat = features cfg now price s2
                in commit mint
                     (decide mint price now tokensCurve tps (uniqueWallets s2) (avgSol s2) feat (eng, s2)))))"

section \<open>Runs\<close>

text \<open>
  What can happen to the strategy: the two public calls and the four callbacks, each
  with the reading of the clock where the code takes one.
\<close>

datatype event =
    Pool number PoolEvent
  | Price number string number "number option" "number option" "string option" "side option"
      "number option"
  | RiskThen nat string "number option" bool
  | RiskCatch nat string
  | DevExitThen nat string bool
  | NoBuyTimeout string

fun step :: "event \<Rightarrow> MomentumStrategy \<Rightarrow> MomentumStrategy" where
  "step (Pool nowMs event) eng = onPool nowMs event eng"
| "step (Price nowMs mint price vol liq wallet sd tokensCurve) eng =
     onPrice nowMs mint price vol liq wallet sd tokensCurve eng"
| "step (RiskThen r mint feeBps bundler) eng = risk_then r mint feeBps bundler eng"
| "step (RiskCatch r mint) eng = risk_catch r mint eng"
| "step (DevExitThen r mint exited) eng = dev_exit_then r mint exited eng"
| "step (NoBuyTimeout mint) eng = no_buy_timeout mint eng"

fun run :: "event list \<Rightarrow> MomentumStrategy \<Rightarrow> MomentumStrategy" where
  "run [] eng = eng"
| "run (e # es) eng = run es (step e eng)"

section \<open>What one call of onPrice can do\<close>

text \<open>The position fields of a token state, which only the opening of a position writes.\<close>

definition same_pos :: "TokenState \<Rightarrow> TokenState \<Rightarrow> bool" where
  "same_pos s s' = (hasBought s' = hasBought s \<and> entryPrice s' = entryPrice s
                    \<and> entrySol s' = entrySol s)"


definition trade_size :: "MomentumStrategy \<Rightarrow> number" where
  "trade_size eng = dflt 0.5 (trade_size_sol (config eng))"

text \<open>What opening a position of size \<open>q\<close> does to the strategy; \<open>bl\<close> is the new blacklist.\<close>

definition opened :: "number \<Rightarrow> (string \<rightharpoonup> number) \<Rightarrow> MomentumStrategy \<Rightarrow> MomentumStrategy" where
  "opened q bl eng = eng\<lparr>investedSol := investedSol eng + q,
                          totalInvestedSol := totalInvestedSol eng + q,
                          devBlacklist := bl\<rparr>"

definition is_buy :: "string \<Rightarrow> TradeSignal \<Rightarrow> bool" where
  "is_buy mint g = (sig_mint g = mint \<and> action g = BUY)"

definition is_sell :: "string \<Rightarrow> TradeSignal \<Rightarrow> bool" where
  "is_sell mint g = (sig_mint g = mint \<and> action g = SELL)"




section \<open>Signals and positions over a run\<close>

text \<open>The numbers of BUY and of SELL signals emitted so far for a mint.\<close>

definition buys :: "string \<Rightarrow> MomentumStrategy \<Rightarrow> nat" where
  "buys mint eng = length (filter (is_buy mint) (signals eng))"

definition sells :: "string \<Rightarrow> MomentumStrategy \<Rightarrow> nat" where
  "sells mint eng = length (filter (is_sell mint) (signals eng))"






text \<open>
  A step that emits nothing for the mint and neither starts tracking it nor changes
  whether it is bought.
\<close>

definition tame :: "string \<Rightarrow> MomentumStrategy \<Rightarrow> MomentumStrategy \<Rightarrow> bool" where
  "tame mint eng eng' =
     (buys mint eng' = buys mint eng \<and> sells mint eng' = sells mint eng
      \<and> (case states eng' mint of
            None \<Rightarrow> True
          | Some s' \<Rightarrow> (case states eng mint of
                          None \<Rightarrow> False
                        | Some s \<Rightarrow> hasBought s' = hasBought s)))"

section \<open>The entry and exit rules in the specification's words\<close>





section \<open>Scenarios\<close>

text \<open>The configuration with no key set: every default applies.\<close>

definition empty_config :: config where
  "empty_config =
     \<lparr>skip_dev_same_ticker = False, token_max_age = None, min_initial_mcap = None,
      max_initial_liquidity_sol = None, enable_tax_bundler_filter = None,
      max_transfer_fee_bps = None, allow_bundler = False, min_runtime_mcap_sol = None,
      tps_window_ms = None, ema_short_ms = None, ema_long_ms = None, atr_window_sec = None,
      require_dev_sold = None, skip_dev_first_token = None, trade_size_sol = None,
      dev_blacklist_sec = None, rug_liquidity_drop_pct = None, min_liquidity_sol = None,
      min_volume_sol = None, min_tps = None, min_unique_wallets = None,
      max_avg_sol_per_tx = None, exceptional_momentum_pct = None, migrate_fill_pct = None,
      take_profit = None, base_trail_dd = None, tps_trail_scale = None, atr_mult = None,
      disable_ema_tps_gain_pct = None, exit_tps = None, lgbm_enabled = False,
      lgbm_threshold_buy = None, buy_threshold = None, lgbm_threshold_sell = None,
      sell_threshold = None, pure_ml = False\<rparr>"

text \<open>A model of one tree that is a single leaf of value 0: it predicts 1/2 on every input.\<close>

definition leaf0 :: GbmPredictor where
  "leaf0 = \<lparr>trees = [Leaf 0], initScore = 0\<rparr>"

text \<open>Two tokens of the dev \<open>d\<close>: \<open>a\<close> is the dev's first token, \<open>m\<close> the second.\<close>

definition evA :: PoolEvent where
  "evA = \<lparr>ev_mint = ''a'', ev_createdAt = 0, ev_initialMcap = 50, ev_symbol = Some ''AAA'',
          ev_devWallet = Some ''d''\<rparr>"

definition evM :: PoolEvent where
  "evM = \<lparr>ev_mint = ''m'', ev_createdAt = 0, ev_initialMcap = 50, ev_symbol = Some ''MMM'',
          ev_devWallet = Some ''d''\<rparr>"

text \<open>
  The token \<open>m\<close>, admitted at the clock reading \<open>t\<close> as object \<open>r\<close>, is brought past the
  gates under the default configuration: its risk assessment resolves with no fee and no
  bundler, a first trade one second later (1000 tokens in the curve) starts the
  dev-balance probe, and the probe finds that the dev has sold.
\<close>

definition past_gates :: "nat \<Rightarrow> number \<Rightarrow> event list" where
  "past_gates r t =
     [Pool t evM,
      RiskThen r ''m'' (Some 0) False,
      Price (t + 1000) ''m'' 1 (Some 1) (Some 50) (Some ''w'') (Some buy) (Some 1000),
      DevExitThen r ''m'' True]"

text \<open>
  Three strategies after \<open>a\<close> and \<open>m\<close> were admitted and \<open>m\<close> (object 1) passed the gates:
  one with both models loaded, one in pure-ML mode whose model files do not exist, and
  one with the buy model only (and a take-profit level of 0.9) that has bought \<open>m\<close> at
  price 3 and still holds it.
\<close>

definition ml_ready :: MomentumStrategy where
  "ml_ready = run (Pool 0 evA # past_gates 1 0)
     (new_strategy (empty_config\<lparr>lgbm_enabled := True\<rparr>) (Some leaf0) (Some leaf0))"

definition pure_ready :: MomentumStrategy where
  "pure_ready = run (Pool 0 evA # past_gates 1 0)
     (new_strategy (empty_config\<lparr>lgbm_enabled := True, pure_ml := True\<rparr>) None None)"

definition holding :: MomentumStrategy where
  "holding = run (Pool 0 evA # past_gates 1 0 @
       [Price 2000 ''m'' 3 (Some 1) (Some 50) (Some ''w'') (Some buy) (Some 900)])
     (new_strategy (empty_config\<lparr>lgbm_enabled := True, exit_tps := Some 0, take_profit := Some 0.9\<rparr>)
        (Some leaf0) None)"



lemmas model_defs = new_strategy_def onPool_def same_ticker_filter_def admission_rejects_def
  track_token_def onPrice_def prepare_def record_curve_def update_liquidity_def update_window_def
  update_indicators_def tps_of_def windowVolume_def uniqueWallets_def avgSol_def ema_alpha_def
  decide_def and_then_def risk_gate_def first_token_gate_def dev_sold_gate_def rug_exit_def
  ml_buy_def ml_sell_def track_extrema_def heuristic_entry_def migration_exit_def
  adaptive_exit_def gain_pct_def dyn_trail_def allowed_drop_def exit_tps_of_def open_position_def sell_and_untrack_def settlePosition_def emit_def
  stopTracking_def commit_def payload_def buy_signal_def sell_signal_def blacklisted_def
  predict_def dflt_def truthy_def truthyS_def percentChange_def with_ref_def risk_then_def
  risk_catch_def dev_exit_then_def no_buy_timeout_def empty_config_def leaf0_def evA_def
  evM_def past_gates_def MAX_VALUE_def Let_def

section \<open>Basic facts\<close>

lemma dflt_simps [simp]: "dflt d None = d" "dflt d (Some v) = v"
  by (simp_all add: dflt_def)

lemma truthy_simps [simp]: "truthy None = False" "truthy (Some v) = (v \<noteq> 0)"
  by (simp_all add: truthy_def)

subsection \<open>Composing the outcomes of the blocks\<close>

lemma same_pos_refl [simp]: "same_pos s s"
  by (simp add: same_pos_def)



lemma trade_size_emit_opened [simp]: "trade_size (emit g (opened q bl eng)) = trade_size eng"
  by (simp add: trade_size_def emit_def opened_def)











subsection \<open>The blocks one by one\<close>



lemma is_sell_signal [simp]: "is_sell mint (sell_signal mint r price now s)"
  by (simp add: is_sell_def sell_signal_def)














subsection \<open>One call of onPrice\<close>

lemma proj_emit [simp]:
  "states (emit g eng) = states eng" "signals (emit g eng) = signals eng @ [g]"
  "investedSol (emit g eng) = investedSol eng" "profitSol (emit g eng) = profitSol eng"
  "config (emit g eng) = config eng" "pnl_out (emit g eng) = pnl_out eng"
  by (simp_all add: emit_def)

lemma proj_opened [simp]:
  "states (opened q bl eng) = states eng" "signals (opened q bl eng) = signals eng"
  "investedSol (opened q bl eng) = investedSol eng + q" "profitSol (opened q bl eng) = profitSol eng"
  "config (opened q bl eng) = config eng" "pnl_out (opened q bl eng) = pnl_out eng"
  by (simp_all add: opened_def)

lemma proj_stopTracking [simp]:
  "states (stopTracking mint eng) = (states eng)(mint := None)"
  "signals (stopTracking mint eng) = signals eng"
  "investedSol (stopTracking mint eng) = investedSol eng"
  "profitSol (stopTracking mint eng) = profitSol eng"
  "config (stopTracking mint eng) = config eng" "pnl_out (stopTracking mint eng) = pnl_out eng"
  by (simp_all add: stopTracking_def)

lemma proj_settlePosition [simp]:
  "states (settlePosition s x eng) = states eng" "signals (settlePosition s x eng) = signals eng"
  "config (settlePosition s x eng) = config eng"
  by (simp_all add: settlePosition_def Let_def split: option.splits)









subsection \<open>Counting signals\<close>

lemma buys_emit [simp]: "buys m (emit g eng) = buys m eng + (if is_buy m g then 1 else 0)"
  by (simp add: buys_def)

lemma sells_emit [simp]: "sells m (emit g eng) = sells m eng + (if is_sell m g then 1 else 0)"
  by (simp add: sells_def)

lemma counts_frame [simp]:
  "buys m (opened q bl eng) = buys m eng" "sells m (opened q bl eng) = sells m eng"
  "buys m (stopTracking mint eng) = buys m eng" "sells m (stopTracking mint eng) = sells m eng"
  "buys m (settlePosition s x eng) = buys m eng" "sells m (settlePosition s x eng) = sells m eng"
  "buys m (eng\<lparr>states := st\<rparr>) = buys m eng" "sells m (eng\<lparr>states := st\<rparr>) = sells m eng"
  by (simp_all add: buys_def sells_def)



lemma tame_refl [simp]: "tame mint eng eng"
  by (simp add: tame_def split: option.splits)


subsection \<open>The steps other than a price event of the mint\<close>











subsection \<open>A price event of the mint\<close>






subsection \<open>The invested amount covers the open positions\<close>










lemma trade_size_frame [simp]:
  "trade_size (emit g eng) = trade_size eng" "trade_size (opened q bl eng) = trade_size eng"
  "trade_size (stopTracking m eng) = trade_size eng"
  "trade_size (settlePosition s x eng) = trade_size eng"
  "trade_size (eng\<lparr>states := st\<rparr>) = trade_size eng"
  by (simp_all add: trade_size_def)











section \<open>Properties of the predictor\<close>

lemma leaf_reached_scoreTree: "leaf_reached feats t (scoreTree t feats)"
  by (induction t) (auto intro: leaf_reached.intros simp: Let_def)

lemma leaf_reached_unique: "leaf_reached feats t v \<Longrightarrow> v = scoreTree t feats"
  by (induction rule: leaf_reached.induct) (simp_all add: Let_def)

lemma leaf_reached_iff: "leaf_reached feats t v \<longleftrightarrow> v = scoreTree t feats"
  using leaf_reached_scoreTree leaf_reached_unique by blast

lemma predict_loop_sum:
  "predict_loop ts feats score = score + sum_list (map (\<lambda>t. scoreTree t feats) ts)"
  by (induction ts arbitrary: score) simp_all

lemma leaves_sum:
  "list_all2 (leaf_reached feats) ts vs \<Longrightarrow> sum_list (map (\<lambda>t. scoreTree t feats) ts) = sum_list vs"
  by (induction rule: list_all2_induct) (simp_all add: leaf_reached_iff)

text \<open>
  C6. Whenever \<open>vs\<close> lists, tree by tree, the leaf values reached by the descent of the
  specification, \<open>predict\<close> returns \<open>\<sigma>\<close> of the initial score plus their sum; such a list
  exists for every ensemble and feature vector; and an ensemble with initial score 0 and
  the single one-leaf tree of value \<open>v\<close> predicts \<open>\<sigma> v\<close> on every feature vector.
\<close>

theorem predict_sigma_of_leaves:
  "(list_all2 (leaf_reached feats) (trees g) vs \<longrightarrow>
      predict g feats = sigma (initScore g + sum_list vs))
   \<and> (\<exists>ws. list_all2 (leaf_reached feats) (trees g) ws)
   \<and> predict \<lparr>trees = [Leaf v], initScore = 0\<rparr> feats = sigma v"
proof (intro conjI impI)
  assume "list_all2 (leaf_reached feats) (trees g) vs"
  then show "predict g feats = sigma (initScore g + sum_list vs)"
    by (simp add: predict_def sigma_def predict_loop_sum leaves_sum)
next
  have "list_all2 (leaf_reached feats) (trees g) (map (\<lambda>t. scoreTree t feats) (trees g))"
    by (simp add: list_all2_conv_all_nth leaf_reached_scoreTree)
  then show "\<exists>ws. list_all2 (leaf_reached feats) (trees g) ws" ..
next
  show "predict \<lparr>trees = [Leaf v], initScore = 0\<rparr> feats = sigma v"
    by (simp add: predict_def sigma_def)
qed

theorem predict_sigma_of_leaves_witness:
  "list_all2 (leaf_reached [3, 1])
     (trees \<lparr>trees = [Split (Some 0) (Some 2) (Leaf 5) (Leaf 7), Split (Some 4) None (Leaf 1) (Leaf 9)],
             initScore = 2\<rparr>) [7, 1]
   \<and> predict \<lparr>trees = [Split (Some 0) (Some 2) (Leaf 5) (Leaf 7), Split (Some 4) None (Leaf 1) (Leaf 9)],
              initScore = 2\<rparr> [3, 1] = sigma 10"
proof -
  let ?g = "\<lparr>trees = [Split (Some 0) (Some 2) (Leaf 5) (Leaf 7), Split (Some 4) None (Leaf 1) (Leaf 9)],
             initScore = 2\<rparr>"
  have h: "list_all2 (leaf_reached [3, 1]) (trees ?g) [7, 1]"
    by (simp add: leaf_reached_iff feat_at_def dflt_def)
  from predict_sigma_of_leaves [of "[3, 1]" ?g "[7, 1]" 0] h
  have "predict ?g [3, 1] = sigma (initScore ?g + sum_list [7, 1])" by blast
  with h show ?thesis by simp
qed

section \<open>Properties of the strategy on the scenarios\<close>

text \<open>
  C10. There is a reachable state and one price event on which a single call of
  \<open>onPrice\<close> emits a BUY and then a SELL for the same token: with both models loaded, the
  LightGBM entry fires and the LightGBM exit fires later in the same call, at the same
  price. The settlement runs (it emits the cumulative profit) and changes the profit by 0.
\<close>

theorem buy_and_sell_in_one_call:
  "signals ml_ready = []
   \<and> signals (onPrice 2000 ''m'' 3 (Some 1) (Some 50) (Some ''w'') (Some buy) (Some 900) ml_ready)
     = [\<lparr>sig_mint = ''m'', action = BUY, reason = None, sig_symbol = Some ''MMM'',
          sig_price = Some 3, sig_time = Some 2\<rparr>,
        \<lparr>sig_mint = ''m'', action = SELL, reason = Some TP, sig_symbol = Some ''MMM'',
          sig_price = Some 3, sig_time = Some 2\<rparr>]
   \<and> profitSol (onPrice 2000 ''m'' 3 (Some 1) (Some 50) (Some ''w'') (Some buy) (Some 900) ml_ready)
     = profitSol ml_ready
   \<and> pnl_out ml_ready = []
   \<and> pnl_out (onPrice 2000 ''m'' 3 (Some 1) (Some 50) (Some ''w'') (Some buy) (Some 900) ml_ready)
     = [profitSol ml_ready + 1 / 2 * (3 - 3) / 3]"
  by (simp add: ml_ready_def model_defs)

text \<open>
  C9. There is a reachable state in pure-ML mode, with the token past the risk and dev
  gates, not bought, and its initial curve size recorded, on which a price event whose
  curve fill reaches \<open>migrate_fill_pct\<close> emits SELL with reason TP although no BUY was
  ever emitted; the settlement changes neither the profit nor the invested amount, and
  emits nothing.
\<close>

theorem migration_sell_without_buy:
  "pureML pure_ready
   \<and> signals pure_ready = []
   \<and> map_option riskChecked (states pure_ready ''m'') = Some True
   \<and> map_option devSold (states pure_ready ''m'') = Some True
   \<and> map_option devFirstToken (states pure_ready ''m'') = Some False
   \<and> map_option hasBought (states pure_ready ''m'') = Some False
   \<and> map_option initialTokens (states pure_ready ''m'') = Some (Some 1000)
   \<and> map_option entryPrice (states pure_ready ''m'') = Some None
   \<and> map_option entrySol (states pure_ready ''m'') = Some None
   \<and> 1 - 10 / 1000 \<ge> dflt 0.97 (migrate_fill_pct (config pure_ready))
   \<and> signals (onPrice 2000 ''m'' 3 (Some 1) (Some 50) (Some ''w'') (Some buy) (Some 10) pure_ready)
     = [\<lparr>sig_mint = ''m'', action = SELL, reason = Some TP, sig_symbol = Some ''MMM'',
          sig_price = Some 3, sig_time = Some 2\<rparr>]
   \<and> profitSol (onPrice 2000 ''m'' 3 (Some 1) (Some 50) (Some ''w'') (Some buy) (Some 10) pure_ready)
     = profitSol pure_ready
   \<and> investedSol (onPrice 2000 ''m'' 3 (Some 1) (Some 50) (Some ''w'') (Some buy) (Some 10) pure_ready)
     = investedSol pure_ready
   \<and> pnl_out (onPrice 2000 ''m'' 3 (Some 1) (Some 50) (Some ''w'') (Some buy) (Some 10) pure_ready)
     = pnl_out pure_ready"
  by (simp add: pure_ready_def model_defs)

section \<open>The liquidity floor\<close>

text \<open>
  C8. For a tracked token with an open position, a price event whose liquidity is below
  \<open>min_runtime_mcap_sol\<close> (default 30) removes the token and returns: nothing else of the
  strategy changes, so no SELL is emitted, nothing is settled, and the profit and the
  invested amount are as before.
\<close>

theorem liquidity_floor_drops_open_position:
  assumes "map_option hasBought (states eng mint) = Some True"
      and "l < dflt 30 (min_runtime_mcap_sol (config eng))"
  shows "onPrice nowMs mint price vol (Some l) wallet sd tokensCurve eng
           = eng\<lparr>states := (states eng)(mint := None)\<rparr>
         \<and> states (onPrice nowMs mint price vol (Some l) wallet sd tokensCurve eng) mint = None
         \<and> signals (onPrice nowMs mint price vol (Some l) wallet sd tokensCurve eng) = signals eng
         \<and> pnl_out (onPrice nowMs mint price vol (Some l) wallet sd tokensCurve eng) = pnl_out eng
         \<and> profitSol (onPrice nowMs mint price vol (Some l) wallet sd tokensCurve eng) = profitSol eng
         \<and> investedSol (onPrice nowMs mint price vol (Some l) wallet sd tokensCurve eng) = investedSol eng"
proof -
  from assms(1) obtain state where "states eng mint = Some state" by auto
  with assms(2) have "onPrice nowMs mint price vol (Some l) wallet sd tokensCurve eng
           = eng\<lparr>states := (states eng)(mint := None)\<rparr>"
    by (simp add: onPrice_def prepare_def update_liquidity_def stopTracking_def Let_def)
  then show ?thesis by simp
qed

theorem liquidity_floor_drops_open_position_witness:
  "map_option hasBought (states holding ''m'') = Some True
   \<and> (10 :: real) < dflt 30 (min_runtime_mcap_sol (config holding))
   \<and> investedSol holding = 1 / 2
   \<and> states (onPrice 3000 ''m'' 3 (Some 1) (Some 10) (Some ''w'') (Some sell) (Some 800) holding) ''m'' = None
   \<and> signals (onPrice 3000 ''m'' 3 (Some 1) (Some 10) (Some ''w'') (Some sell) (Some 800) holding) = signals holding
   \<and> investedSol (onPrice 3000 ''m'' 3 (Some 1) (Some 10) (Some ''w'') (Some sell) (Some 800) holding) = 1 / 2"
proof -
  have h1: "map_option hasBought (states holding ''m'') = Some True"
    by (simp add: holding_def model_defs)
  have h2: "(10 :: real) < dflt 30 (min_runtime_mcap_sol (config holding))"
    by (simp add: holding_def model_defs)
  have h3: "investedSol holding = 1 / 2"
    by (simp add: holding_def model_defs)
  from liquidity_floor_drops_open_position [OF h1 h2, of 3000 3 "Some 1" "Some ''w''" "Some sell" "Some 800"] h1 h2 h3
  show ?thesis by simp
qed

section \<open>Admission\<close>

lemma same_ticker_filter_keeps:
  "config (fst (same_ticker_filter event eng)) = config eng
   \<and> states (fst (same_ticker_filter event eng)) = states eng"
  by (simp add: same_ticker_filter_def Let_def split: option.splits)

text \<open>
  C3 (as amended). For every pool event that no admission filter rejects (the same-ticker
  skip, the age limit, the two market-cap bounds) and whose mint is not tracked,
  \<open>onPool\<close> creates the state of the mint with \<open>createdAt\<close> the current time in
  seconds, \<open>liquidity\<close> the event's \<open>initialMcap\<close>, \<open>highestPrice = 0\<close>,
  \<open>lowestPrice = Number.MAX_VALUE\<close> (the largest finite number, not an infinity) and
  \<open>hasBought = false\<close>.
\<close>

theorem onPool_creates_state:
  assumes "\<not> snd (same_ticker_filter event eng)"
      and "\<not> admission_rejects (config eng) (nowMs / 1000) event"
      and "states eng (ev_mint event) = None"
  shows "map_option createdAt (states (onPool nowMs event eng) (ev_mint event)) = Some (nowMs / 1000)
         \<and> map_option liquidity (states (onPool nowMs event eng) (ev_mint event))
             = Some (ev_initialMcap event)
         \<and> map_option highestPrice (states (onPool nowMs event eng) (ev_mint event)) = Some 0
         \<and> map_option lowestPrice (states (onPool nowMs event eng) (ev_mint event)) = Some MAX_VALUE
         \<and> map_option hasBought (states (onPool nowMs event eng) (ev_mint event)) = Some False"
proof -
  obtain eng1 skip where f: "same_ticker_filter event eng = (eng1, skip)"
    by (cases "same_ticker_filter event eng")
  with same_ticker_filter_keeps [of event eng]
  have k: "config eng1 = config eng" "states eng1 = states eng" by simp_all
  from f assms(1) have "\<not> skip" by simp
  with f k assms(2,3) have "onPool nowMs event eng = track_token (nowMs / 1000) event eng1"
    by (simp add: onPool_def Let_def)
  then show ?thesis by (simp add: track_token_def Let_def)
qed

theorem onPool_creates_state_witness:
  "\<not> snd (same_ticker_filter evM (new_strategy empty_config None None))
   \<and> \<not> admission_rejects (config (new_strategy empty_config None None)) (5000 / 1000) evM
   \<and> states (new_strategy empty_config None None) (ev_mint evM) = None
   \<and> map_option createdAt (states (onPool 5000 evM (new_strategy empty_config None None)) ''m'') = Some 5
   \<and> map_option liquidity (states (onPool 5000 evM (new_strategy empty_config None None)) ''m'') = Some 50
   \<and> map_option lowestPrice (states (onPool 5000 evM (new_strategy empty_config None None)) ''m'')
       = Some MAX_VALUE"
proof -
  let ?e = "new_strategy empty_config None None"
  have h1: "\<not> snd (same_ticker_filter evM ?e)"
    by (simp add: same_ticker_filter_def new_strategy_def empty_config_def evM_def)
  have h2: "\<not> admission_rejects (config ?e) (5000 / 1000) evM"
    by (simp add: admission_rejects_def new_strategy_def empty_config_def evM_def dflt_def)
  have h3: "states ?e (ev_mint evM) = None"
    by (simp add: new_strategy_def)
  from onPool_creates_state [OF h1 h2 h3] h1 h2 h3 show ?thesis
    by (simp add: evM_def)
qed

text \<open>
  The initial \<open>lowestPrice\<close> is not an infinity: in the state created for \<open>m\<close> it is
  the finite number \<^verbatim>\<open>Number.MAX_VALUE\<close>, which lies below 2 to the power 1024.
\<close>

theorem onPool_lowestPrice_finite:
  "map_option lowestPrice (states (onPool 5000 evM (new_strategy empty_config None None)) ''m'')
     = Some (2 ^ 1024 - 2 ^ 971)
   \<and> (2 ^ 1024 - 2 ^ 971 :: real) < 2 ^ 1024"
  by (simp add: model_defs)

section \<open>Failure of the risk assessment\<close>








section \<open>The heuristic entry\<close>




section \<open>The adaptive exit\<close>





section \<open>Signals of a mint\<close>




section \<open>Settlement\<close>





end
